theory Spec2Isabelle
  imports Main
begin

section \<open>servr (lama.sh): an HTTP file server that logs every request\<close>

text \<open>
  The development embeds \<^verbatim>\<open>src/main.go\<close>: the upload sink \<^verbatim>\<open>handleUploads\<close>, the
  dispatcher \<^verbatim>\<open>debugHandler.ServeHTTP\<close>, the renderer \<^verbatim>\<open>debugHandler.logRequests\<close>
  and the wiring done by \<^verbatim>\<open>main\<close>. The Go standard library is not part of the
  repository; the few library functions the handlers call are modelled after their
  documented behaviour on a Unix system and are named after the Go function they stand for.
\<close>

subsection \<open>Strings and paths (Go standard library)\<close>

text \<open>\<^verbatim>\<open>strings.HasPrefix\<close> and \<^verbatim>\<open>strings.Join\<close>.\<close>

definition strings_HasPrefix :: "string \<Rightarrow> string \<Rightarrow> bool" where
  "strings_HasPrefix s p = (take (length p) s = p)"

fun strings_Join :: "string list \<Rightarrow> string \<Rightarrow> string" where
  "strings_Join [] sep = []"
| "strings_Join [x] sep = x"
| "strings_Join (x # y # ys) sep = x @ sep @ strings_Join (y # ys) sep"

text \<open>The elements of a path: the pieces between the separators \<^verbatim>\<open>/\<close>.\<close>

fun split_sep :: "string \<Rightarrow> string list" where
  "split_sep [] = [[]]"
| "split_sep (c # cs) =
     (if c = CHR ''/'' then [] # split_sep cs
      else (case split_sep cs of [] \<Rightarrow> [[c]] | x # xs \<Rightarrow> (c # x) # xs))"

text \<open>
  \<^verbatim>\<open>filepath.Clean\<close> reads the path element by element and keeps a stack of the elements
  of the result (here with the last element first): an empty element and \<^verbatim>\<open>.\<close> are
  skipped; \<^verbatim>\<open>..\<close> removes the element before it when there is one that is not itself
  \<^verbatim>\<open>..\<close>, is dropped at the root of a rooted path, and is kept at the start of a
  relative path; any other element is appended.
\<close>

definition clean_step :: "bool \<Rightarrow> string list \<Rightarrow> string \<Rightarrow> string list" where
  "clean_step rooted stk e =
     (if e = [] \<or> e = ''.'' then stk
      else if e = ''..'' then
        (case stk of
           [] \<Rightarrow> (if rooted then [] else [''..''])
         | x # xs \<Rightarrow> (if x \<noteq> ''..'' then xs else if rooted then stk else ''..'' # stk))
      else e # stk)"

definition is_rooted :: "string \<Rightarrow> bool" where
  "is_rooted p = (case p of [] \<Rightarrow> False | c # _ \<Rightarrow> c = CHR ''/'')"

definition path_elems :: "string \<Rightarrow> string list" where
  "path_elems p = rev (foldl (clean_step (is_rooted p)) [] (split_sep p))"

definition filepath_Clean :: "string \<Rightarrow> string" where
  "filepath_Clean p =
     (if is_rooted p then ''/'' @ strings_Join (path_elems p) ''/''
      else if path_elems p = [] then ''.''
      else strings_Join (path_elems p) ''/'')"

text \<open>
  \<^verbatim>\<open>filepath.Join\<close> drops the leading empty elements, joins the rest with the separator
  and cleans the result; with nothing but empty elements it returns the empty string.
\<close>

fun filepath_Join :: "string list \<Rightarrow> string" where
  "filepath_Join [] = []"
| "filepath_Join (e # es) =
     (if e \<noteq> [] then filepath_Clean (strings_Join (e # es) ''/'') else filepath_Join es)"

text \<open>
  A path is confined to a directory when both are rooted or both are relative, the
  elements of the cleaned directory are the first elements of the cleaned path, and none
  of the elements after them is \<^verbatim>\<open>..\<close>.
\<close>

definition confined :: "string \<Rightarrow> string \<Rightarrow> bool" where
  "confined dir p =
     (is_rooted p = is_rooted dir
      \<and> take (length (path_elems dir)) (path_elems p) = path_elems dir
      \<and> ''..'' \<notin> set (drop (length (path_elems dir)) (path_elems p)))"

subsection \<open>The file system and the operating system calls\<close>

text \<open>
  The file system maps the cleaned path of a regular file to its content. Directories are
  taken to exist, symbolic links are not modelled, and a relative path is relative to the
  one working directory of the process. What the operating system decides (the random
  names \<^verbatim>\<open>os.CreateTemp\<close> tries, whether creating, writing or renaming fails) is read
  from a record of choices, so that every outcome of a call is a value of the model.
\<close>

type_synonym filesys = "string \<rightharpoonup> string"

record os_choices =
  TempDir :: string
  nextRandom :: "nat list"
  create_fails :: "string option"
  write_fails :: "(nat \<times> string) option"
  rename_fails :: "string option"

text \<open>An \<^verbatim>\<open>io.Reader\<close>: the bytes it delivers, then end of file or an error.\<close>

record reader =
  rd_data :: string
  rd_err :: "string option"

text \<open>\<^verbatim>\<open>uitoa\<close>: the decimal digits of a number, as \<^verbatim>\<open>os.CreateTemp\<close> prints its random number.\<close>

definition digit :: "nat \<Rightarrow> char" where
  "digit d = ''0123456789'' ! d"

fun uitoa :: "nat \<Rightarrow> string" where
  "uitoa n = (if n < 10 then [digit n] else uitoa (n div 10) @ [digit (n mod 10)])"

declare uitoa.simps [simp del]

text \<open>
  \<^verbatim>\<open>os.CreateTemp(dir, prefix + "*")\<close>: the name is the directory (the default temporary
  directory when \<^verbatim>\<open>dir\<close> is empty), the prefix and a random number; a name that exists
  already is skipped (the file is opened with \<^verbatim>\<open>O_EXCL\<close>), and the call fails when
  every try exists. The new file is empty.
\<close>

definition joinPath :: "string \<Rightarrow> string \<Rightarrow> string" where
  "joinPath dir name =
     (if dir \<noteq> [] \<and> last dir = CHR ''/'' then dir @ name else dir @ ''/'' @ name)"

definition os_CreateTemp ::
  "os_choices \<Rightarrow> string \<Rightarrow> string \<Rightarrow> filesys \<Rightarrow> string + (string \<times> filesys)" where
  "os_CreateTemp os dir prefix files =
     (case create_fails os of
        Some err \<Rightarrow> Inl err
      | None \<Rightarrow>
          (let d = (if dir = [] then TempDir os else dir);
               names = map (\<lambda>n. joinPath d prefix @ uitoa n) (nextRandom os)
           in case find (\<lambda>name. files (filepath_Clean name) = None) names of
                None \<Rightarrow> Inl ''file exists''
              | Some name \<Rightarrow> Inr (name, files(filepath_Clean name \<mapsto> []))))"

text \<open>
  \<^verbatim>\<open>io.Copy(tmpfile, filebody)\<close>: what is read is written to the file; the copy stops at
  the first error of the writer or of the reader and returns it, else the number of bytes.
\<close>

definition io_Copy ::
  "os_choices \<Rightarrow> string \<Rightarrow> reader \<Rightarrow> filesys \<Rightarrow> (string + nat) \<times> filesys" where
  "io_Copy os name src files =
     (case write_fails os of
        Some (n, err) \<Rightarrow>
          (if n < length (rd_data src)
           then (Inl err, files(filepath_Clean name \<mapsto> take n (rd_data src)))
           else (case rd_err src of
                   Some e \<Rightarrow> (Inl e, files(filepath_Clean name \<mapsto> rd_data src))
                 | None \<Rightarrow> (Inr (length (rd_data src)), files(filepath_Clean name \<mapsto> rd_data src))))
      | None \<Rightarrow>
          (case rd_err src of
             Some e \<Rightarrow> (Inl e, files(filepath_Clean name \<mapsto> rd_data src))
           | None \<Rightarrow> (Inr (length (rd_data src)), files(filepath_Clean name \<mapsto> rd_data src))))"

text \<open>
  \<^verbatim>\<open>os.Rename\<close> is atomic: it fails and changes nothing, or the file is at the new path
  and no longer at the old one. Renaming a file to itself succeeds and changes nothing;
  there is no file of the empty name.
\<close>

definition os_Rename ::
  "os_choices \<Rightarrow> string \<Rightarrow> string \<Rightarrow> filesys \<Rightarrow> string option \<times> filesys" where
  "os_Rename os oldname newname files =
     (case rename_fails os of
        Some err \<Rightarrow> (Some err, files)
      | None \<Rightarrow>
          if newname = [] then (Some ''no such file or directory'', files)
          else
          (case files (filepath_Clean oldname) of
             None \<Rightarrow> (Some ''no such file or directory'', files)
           | Some content \<Rightarrow>
               (None, (files(filepath_Clean oldname := None))(filepath_Clean newname \<mapsto> content))))"

definition os_Remove :: "string \<Rightarrow> filesys \<Rightarrow> filesys" where
  "os_Remove name files = files(filepath_Clean name := None)"

subsection \<open>Requests and responses (\<^verbatim>\<open>net/http\<close>)\<close>

text \<open>
  The fields of \<^verbatim>\<open>http.Request\<close> that the program reads. The server always sets
  \<^verbatim>\<open>req.URL\<close>, so the pointer is a value here and the test \<^verbatim>\<open>req.URL != nil\<close> of the
  renderer is true. \<^verbatim>\<open>url_String\<close> is what \<^verbatim>\<open>fmt\<close> prints for the URL. The header is a
  list of keys with their values; the order of the keys stands for the order in which Go
  iterates over the map. \<^verbatim>\<open>MultipartForm\<close> is what \<^verbatim>\<open>ParseMultipartForm\<close> makes of the
  body and of the boundary named in \<^verbatim>\<open>Content-Type\<close>: an error, or the file fields with
  their files. The library computes it; here it is given with the request.
\<close>

record url =
  url_Host :: string
  url_Path :: string
  url_String :: string

record FileHeader =
  Filename :: string
  Open :: "string + reader"

record request =
  Method :: string
  Proto :: string
  URL :: url
  RequestURI :: string
  Host :: string
  Header :: "(string \<times> string list) list"
  TransferEncoding :: "string list"
  Close :: bool
  Body :: reader
  MultipartForm :: "string + (string \<times> FileHeader list) list"

definition MethodPut :: string where
  "MethodPut = ''PUT''"

definition MethodPost :: string where
  "MethodPost = ''POST''"

definition StatusOK :: nat where
  "StatusOK = 200"

definition StatusBadRequest :: nat where
  "StatusBadRequest = 400"

definition StatusInternalServerError :: nat where
  "StatusInternalServerError = 500"



text \<open>\<^verbatim>\<open>Header.Get\<close>: the first value of the key, or the empty string.\<close>

definition Header_Get :: "(string \<times> string list) list \<Rightarrow> string \<Rightarrow> string" where
  "Header_Get h key = (case map_of h key of Some (v # _) \<Rightarrow> v | _ \<Rightarrow> [])"

text \<open>
  \<^verbatim>\<open>Request.FormFile\<close>: the error of parsing the form, else the first file of the field
  (and the error of opening it), else \<^verbatim>\<open>ErrMissingFile\<close>.
\<close>

definition FormFile :: "request \<Rightarrow> string \<Rightarrow> string + (reader \<times> FileHeader)" where
  "FormFile r key =
     (case MultipartForm r of
        Inl err \<Rightarrow> Inl err
      | Inr form \<Rightarrow>
          (case map_of form key of
             Some (fh # _) \<Rightarrow> (case Open fh of Inl err \<Rightarrow> Inl err | Inr f \<Rightarrow> Inr (f, fh))
           | _ \<Rightarrow> Inl ''http: no such file''))"

text \<open>
  The state of an \<^verbatim>\<open>http.ResponseWriter\<close>: the status code once \<^verbatim>\<open>WriteHeader\<close> has
  been called, and the body written so far. A handler that returns without writing
  anything leaves the default response: status 200 and no body.
\<close>

record response =
  status :: "nat option"
  body :: string

definition new_response :: response where
  "new_response = \<lparr>status = None, body = []\<rparr>"

definition status_sent :: "response \<Rightarrow> nat" where
  "status_sent w = (case status w of None \<Rightarrow> StatusOK | Some code \<Rightarrow> code)"

definition WriteHeader :: "response \<Rightarrow> nat \<Rightarrow> response" where
  "WriteHeader w code = (case status w of None \<Rightarrow> w\<lparr>status := Some code\<rparr> | Some _ \<Rightarrow> w)"

definition http_Error :: "response \<Rightarrow> string \<Rightarrow> nat \<Rightarrow> response" where
  "http_Error w err code =
     (let w1 = WriteHeader w code in w1\<lparr>body := body w1 @ err @ [CHR 0x0A]\<rparr>)"

text \<open>
  A handler serves one request: it is given what the operating system decides during the
  call, the response writer, the request and the file system, and returns the response
  and the file system.
\<close>

type_synonym handler =
  "os_choices \<Rightarrow> response \<Rightarrow> request \<Rightarrow> filesys \<Rightarrow> response \<times> filesys"

subsection \<open>The upload sink: \<^verbatim>\<open>handleUploads\<close>\<close>

text \<open>
  Lines 183 to 201: the temporary file, the copy and the rename. The deferred
  \<^verbatim>\<open>os.Remove(tmpfile.Name())\<close> runs on every return after the creation; closing the
  files changes nothing in the file system.
\<close>

definition store_upload ::
  "string \<Rightarrow> os_choices \<Rightarrow> response \<Rightarrow> string \<Rightarrow> reader \<Rightarrow> filesys \<Rightarrow> response \<times> filesys" where
  "store_upload dir os w filename filebody files =
     (case os_CreateTemp os dir ''lama-upload-'' files of
        Inl err \<Rightarrow> (http_Error w err StatusInternalServerError, files)
      | Inr (tmpfile, files1) \<Rightarrow>
          (case io_Copy os tmpfile filebody files1 of
             (Inl err, files2) \<Rightarrow>
               (http_Error w (''failed to write file body: '' @ err) StatusInternalServerError,
                os_Remove tmpfile files2)
           | (Inr _, files2) \<Rightarrow>
               (case os_Rename os tmpfile (filepath_Join [dir, filename]) files2 of
                  (Some err, files3) \<Rightarrow>
                    (http_Error w (''failed to rename file: '' @ err) StatusInternalServerError,
                     os_Remove tmpfile files3)
                | (None, files3) \<Rightarrow> (w, os_Remove tmpfile files3))))"

text \<open>
  Lines 163 to 181, the \<^verbatim>\<open>switch\<close>: a request is an upload with its file name and
  content, or it is answered at once with an error, or it is not an upload.
\<close>

datatype upload = Upload string reader | Reject string | Forward

definition upload_switch :: "request \<Rightarrow> upload" where
  "upload_switch r =
     (if Method r = MethodPut then Upload (url_Path (URL r)) (Body r)
      else if Method r = MethodPost
              \<and> Header_Get (Header r) ''Content-Type'' = ''multipart/form-data'' then
        (case FormFile r ''file'' of
           Inl err \<Rightarrow> Reject err
         | Inr (file, fileHeader) \<Rightarrow> Upload (Filename fileHeader) file)
      else Forward)"

definition handleUploads :: "string \<Rightarrow> handler \<Rightarrow> handler" where
  "handleUploads dir handler os w r files =
     (case upload_switch r of
        Upload filename filebody \<Rightarrow> store_upload dir os w filename filebody files
      | Reject err \<Rightarrow> (http_Error w err StatusBadRequest, files)
      | Forward \<Rightarrow> handler os w r files)"

subsection \<open>The dispatcher and the renderer: \<^verbatim>\<open>debugHandler\<close>\<close>

text \<open>
  A buffered channel: its capacity and the values waiting in it, the oldest first. A send
  on a full channel and a receive on an empty one block; the value \<open>None\<close> says that the
  operation cannot happen in this state.
\<close>

record 'a chan =
  cap :: nat
  buf :: "'a list"

definition make_chan :: "nat \<Rightarrow> 'a chan" where
  "make_chan n = \<lparr>cap = n, buf = []\<rparr>"

definition chan_send :: "'a chan \<Rightarrow> 'a \<Rightarrow> 'a chan option" where
  "chan_send c x = (if length (buf c) < cap c then Some (c\<lparr>buf := buf c @ [x]\<rparr>) else None)"

definition chan_recv :: "'a chan \<Rightarrow> ('a \<times> 'a chan) option" where
  "chan_recv c = (case buf c of [] \<Rightarrow> None | x # xs \<Rightarrow> Some (x, c\<lparr>buf := xs\<rparr>))"

text \<open>
  The colours of package \<^verbatim>\<open>color\<close> and the table layout of \<^verbatim>\<open>tabwriter\<close> are functions
  on strings that the program is given.
\<close>

record terminal =
  fgURL :: "string \<Rightarrow> string"
  fgHeader :: "string \<Rightarrow> string"
  fgMethod :: "string \<Rightarrow> string"
  fgLama :: "string \<Rightarrow> string"
  tabwriter :: "string list \<Rightarrow> string"

record debugHandler =
  Delegate :: "handler option"
  DumpRequest :: bool

text \<open>
  What the handler and the renderer share: the channel \<^verbatim>\<open>Logger\<close>, the cells buffered in
  \<^verbatim>\<open>Writer\<close>, what has been printed on the standard output (one entry for each print),
  and the file system.
\<close>

record server =
  Logger :: "request chan"
  Writer :: "string list"
  Stdout :: "string list"
  Files :: filesys

text \<open>Lines 106 to 112. The result \<open>None\<close>: the send blocks, nothing has happened yet.\<close>

definition ServeHTTP ::
  "debugHandler \<Rightarrow> os_choices \<Rightarrow> response \<Rightarrow> request \<Rightarrow> server \<Rightarrow> (response \<times> server) option" where
  "ServeHTTP h os resp req srv =
     (case chan_send (Logger srv) req of
        None \<Rightarrow> None
      | Some q \<Rightarrow>
          (case Delegate h of
             None \<Rightarrow> Some (resp, srv\<lparr>Logger := q\<rparr>)
           | Some d \<Rightarrow>
               (case d os resp req (Files srv) of
                  (resp', files') \<Rightarrow> Some (resp', srv\<lparr>Logger := q, Files := files'\<rparr>))))"




text \<open>\<^verbatim>\<open>%-7v\<close> and \<^verbatim>\<open>%-8v\<close>: the text, then spaces up to the width.\<close>

definition Sprintf_minus :: "nat \<Rightarrow> string \<Rightarrow> string" where
  "Sprintf_minus width s = s @ replicate (width - length s) CHR '' ''"

definition CRLF :: string where
  "CRLF = [CHR 0x0D, CHR 0x0A]"

definition TAB :: string where
  "TAB = [CHR 0x09]"

definition headerPadding :: string where
  "headerPadding = Sprintf_minus 8 '' ''"

text \<open>Lines 117 to 122, with the time of the clock as \<open>now\<close>.\<close>

definition summary_line :: "terminal \<Rightarrow> string \<Rightarrow> request \<Rightarrow> string" where
  "summary_line t now req =
     fgMethod t (Sprintf_minus 7 (Method req)) @ '' '' @ now @ '' - '' @ Proto req @ '' ''
       @ fgURL t (url_String (URL req)) @ CRLF"

text \<open>Lines 130 to 139.\<close>

definition absRequestURI :: "request \<Rightarrow> bool" where
  "absRequestURI req =
     (strings_HasPrefix (RequestURI req) ''http://'' \<or> strings_HasPrefix (RequestURI req) ''https://'')"

definition host_lines :: "terminal \<Rightarrow> request \<Rightarrow> string list" where
  "host_lines t req =
     (if \<not> absRequestURI req then
        (let host = (if Host req = [] then url_Host (URL req) else Host req)
         in if host \<noteq> [] then [headerPadding @ fgHeader t ''Host:'' @ TAB @ host @ CRLF] else [])
      else [])"

text \<open>Lines 141 to 150.\<close>

definition header_lines :: "terminal \<Rightarrow> request \<Rightarrow> string list" where
  "header_lines t req =
     (if length (TransferEncoding req) > 0
      then [headerPadding @ fgHeader t ''Transfer-Encoding:'' @ TAB
              @ strings_Join (TransferEncoding req) '','' @ CRLF]
      else [])
     @ (if Close req then [headerPadding @ fgHeader t ''Connection:'' @ TAB @ ''close'' @ CRLF] else [])
     @ map (\<lambda>(k, v). headerPadding @ fgHeader t (k @ '':'') @ TAB @ strings_Join v '', '' @ CRLF)
         (Header req)"

text \<open>Lines 117 to 153: what one turn of the loop does with the request it received.\<close>

definition logRequest :: "debugHandler \<Rightarrow> terminal \<Rightarrow> string \<Rightarrow> request \<Rightarrow> server \<Rightarrow> server" where
  "logRequest h t now req srv =
     (let srv1 = srv\<lparr>Stdout := Stdout srv @ [summary_line t now req]\<rparr>
      in if \<not> DumpRequest h then srv1
         else srv1\<lparr>Writer := [],
                   Stdout := Stdout srv1
                     @ [tabwriter t (Writer srv1 @ host_lines t req @ header_lines t req),
                        [CHR 0x0A]]\<rparr>)"

text \<open>Line 116 and the body of the loop: \<open>None\<close> when the receive blocks.\<close>

definition logRequests :: "debugHandler \<Rightarrow> terminal \<Rightarrow> string \<Rightarrow> server \<Rightarrow> server option" where
  "logRequests h t now srv =
     (case chan_recv (Logger srv) of
        None \<Rightarrow> None
      | Some (req, q) \<Rightarrow> Some (logRequest h t now req (srv\<lparr>Logger := q\<rparr>)))"

subsection \<open>The wiring of \<^verbatim>\<open>main\<close>\<close>

record flags =
  port :: string
  directory :: string
  localhost :: bool
  dont_dump :: bool
  dont_serve :: bool
  enable_upload :: bool



definition fileStatement :: "flags \<Rightarrow> string" where
  "fileStatement fl =
     (if \<not> dont_serve fl then
        ''files from '' @ directory fl @ '' '' @ (if enable_upload fl then ''(with upload support) '' else [])
      else [])"

definition addr :: "flags \<Rightarrow> string" where
  "addr fl = (if localhost fl then ''127.0.0.1'' else []) @ '':'' @ port fl"

text \<open>The server when it starts to listen: an empty channel of capacity 10, the banner printed.\<close>

definition main_server :: "terminal \<Rightarrow> flags \<Rightarrow> filesys \<Rightarrow> server" where
  "main_server t fl files =
     \<lparr>Logger = make_chan 10,
      Writer = [],
      Stdout = [''This is '' @ fgLama t ''lama.sh'' @ '' serving '' @ fileStatement fl @ ''on ''
                  @ addr fl @ CRLF @ CRLF],
      Files = files\<rparr>"

subsection \<open>Runs of the server\<close>

text \<open>
  The request handlers and the renderer run concurrently and meet at the channel only. A
  run is a sequence of events: a handler gets past its send and serves its request, or the
  renderer receives a request and prints it. An event that would block cannot be the next
  event of a run.
\<close>

datatype event = Serve os_choices request | Render string

fun step :: "debugHandler \<Rightarrow> terminal \<Rightarrow> event \<Rightarrow> server \<Rightarrow> server option" where
  "step h t (Serve os req) srv = map_option snd (ServeHTTP h os new_response req srv)"
| "step h t (Render now) srv = logRequests h t now srv"

fun run :: "debugHandler \<Rightarrow> terminal \<Rightarrow> event list \<Rightarrow> server \<Rightarrow> server option" where
  "run h t [] srv = Some srv"
| "run h t (e # es) srv = (case step h t e srv of None \<Rightarrow> None | Some srv' \<Rightarrow> run h t es srv')"



text \<open>The requests served and the times of the renderings of a run, in their order.\<close>

fun served :: "event list \<Rightarrow> request list" where
  "served [] = []"
| "served (Serve os req # es) = req # served es"
| "served (Render now # es) = served es"

fun renders :: "event list \<Rightarrow> string list" where
  "renders [] = []"
| "renders (Serve os req # es) = renders es"
| "renders (Render now # es) = now # renders es"

text \<open>What the renderer prints for one request.\<close>

definition entry :: "debugHandler \<Rightarrow> terminal \<Rightarrow> string \<Rightarrow> request \<Rightarrow> string list" where
  "entry h t now req =
     summary_line t now req
       # (if DumpRequest h then [tabwriter t (host_lines t req @ header_lines t req), [CHR 0x0A]]
          else [])"

subsection \<open>Auxiliary notions and sample inputs\<close>

text \<open>
  A stack of path elements is settled when cleaning it, or any part of it below the top,
  once more gives it back, and no element is empty or contains the separator.
\<close>

definition settled :: "bool \<Rightarrow> string list \<Rightarrow> bool" where
  "settled b stk =
     ((\<forall>n. foldl (clean_step b) [] (rev (drop n stk)) = drop n stk)
      \<and> (\<forall>e\<in>set stk. e \<noteq> [] \<and> CHR ''/'' \<notin> set e))"

text \<open>
  \<open>spec_left_pad\<close> follows the words of the specification for the method column, "left-padded
  to a fixed column width": the spaces, then the text.
\<close>

definition spec_left_pad :: "nat \<Rightarrow> string \<Rightarrow> string" where
  "spec_left_pad width s = replicate (width - length s) CHR '' '' @ s"

text \<open>
  \<open>spec_absolute_URI\<close> follows the words of the specification, "an absolute URI": a scheme
  (a letter, then letters, digits, \<^verbatim>\<open>+\<close>, \<^verbatim>\<open>-\<close> or \<^verbatim>\<open>.\<close>), a colon and the rest.
\<close>

definition is_alpha :: "char \<Rightarrow> bool" where
  "is_alpha c = (c \<in> set ''abcdefghijklmnopqrstuvwxyzABCDEFGHIJKLMNOPQRSTUVWXYZ'')"

definition is_scheme_char :: "char \<Rightarrow> bool" where
  "is_scheme_char c = (is_alpha c \<or> c \<in> set ''0123456789+-.'')"

fun scheme_colon :: "string \<Rightarrow> bool" where
  "scheme_colon [] = False"
| "scheme_colon (c # cs) = (c = CHR '':'' \<or> (is_scheme_char c \<and> scheme_colon cs))"

definition spec_absolute_URI :: "string \<Rightarrow> bool" where
  "spec_absolute_URI s = (case s of [] \<Rightarrow> False | c # cs \<Rightarrow> is_alpha c \<and> scheme_colon cs)"

definition os_ok :: os_choices where
  "os_ok = \<lparr>TempDir = ''/tmp'', nextRandom = [42], create_fails = None, write_fails = None,
            rename_fails = None\<rparr>"

definition put_request :: "string \<Rightarrow> reader \<Rightarrow> request" where
  "put_request path content =
     \<lparr>Method = ''PUT'', Proto = ''HTTP/1.1'',
      URL = \<lparr>url_Host = [], url_Path = path, url_String = path\<rparr>,
      RequestURI = path, Host = ''localhost:8080'', Header = [], TransferEncoding = [],
      Close = False, Body = content, MultipartForm = Inl ''request is not multipart''\<rparr>"

definition post_form :: "string \<Rightarrow> string \<Rightarrow> string \<Rightarrow> request" where
  "post_form ctype name content =
     \<lparr>Method = ''POST'', Proto = ''HTTP/1.1'',
      URL = \<lparr>url_Host = [], url_Path = ''/'', url_String = ''/''\<rparr>,
      RequestURI = ''/'', Host = ''localhost:8080'', Header = [(''Content-Type'', [ctype])],
      TransferEncoding = [], Close = False, Body = \<lparr>rd_data = [], rd_err = None\<rparr>,
      MultipartForm =
        Inr [(''file'', [\<lparr>Filename = name, Open = Inr \<lparr>rd_data = content, rd_err = None\<rparr>\<rparr>])]\<rparr>"

definition broken_body :: reader where
  "broken_body = \<lparr>rd_data = ''hel'', rd_err = Some ''unexpected EOF''\<rparr>"

definition os_no_rename :: os_choices where
  "os_no_rename = os_ok\<lparr>rename_fails := Some ''permission denied''\<rparr>"

text \<open>\<^verbatim>\<open>http.NotFoundHandler\<close>, a delegate that touches no file.\<close>

definition NotFound :: handler where
  "NotFound os w r files = (http_Error w ''404 page not found'' 404, files)"

text \<open>A terminal without colours, and requests, handlers and servers to evaluate the program on.\<close>

definition plain_terminal :: terminal where
  "plain_terminal = \<lparr>fgURL = (\<lambda>s. s), fgHeader = (\<lambda>s. s), fgMethod = (\<lambda>s. s), fgLama = (\<lambda>s. s),
                      tabwriter = concat\<rparr>"

definition get_request :: "string \<Rightarrow> request" where
  "get_request path =
     \<lparr>Method = ''GET'', Proto = ''HTTP/1.1'',
      URL = \<lparr>url_Host = [], url_Path = path, url_String = path\<rparr>,
      RequestURI = path, Host = ''localhost:8080'', Header = [], TransferEncoding = [],
      Close = False, Body = \<lparr>rd_data = [], rd_err = None\<rparr>,
      MultipartForm = Inl ''request is not multipart''\<rparr>"

definition quiet_handler :: debugHandler where
  "quiet_handler = \<lparr>Delegate = None, DumpRequest = False\<rparr>"

definition default_flags :: flags where
  "default_flags = \<lparr>port = ''8080'', directory = ''.'', localhost = False, dont_dump = False,
                    dont_serve = False, enable_upload = False\<rparr>"


definition upload_handler :: debugHandler where
  "upload_handler = \<lparr>Delegate = Some (handleUploads ''/srv/www'' NotFound), DumpRequest = True\<rparr>"

definition proxy_request :: request where
  "proxy_request = (get_request ''/x'')\<lparr>RequestURI := ''http://example.com/x''\<rparr>"

definition hostless_request :: "string \<Rightarrow> request" where
  "hostless_request authority =
     (get_request ''/x'')\<lparr>Host := [],
        URL := \<lparr>url_Host = authority, url_Path = ''/x'', url_String = ''/x''\<rparr>\<rparr>"

text \<open>A request line \<^verbatim>\<open>GET HTTP://example.com/x HTTP/1.1\<close>, and a page for redirects.\<close>

definition shouting_request :: request where
  "shouting_request =
     (get_request ''/x'')\<lparr>RequestURI := ''HTTP://example.com/x'', Host := ''example.com'',
        URL := \<lparr>url_Host = ''example.com'', url_Path = ''/x'',
                url_String = ''http://example.com/x''\<rparr>\<rparr>"



definition ten_paths :: "string list" where
  "ten_paths = [''/0'', ''/1'', ''/2'', ''/3'', ''/4'', ''/5'', ''/6'', ''/7'', ''/8'', ''/9'']"

definition full_server :: server where
  "full_server =
     \<lparr>Logger = \<lparr>cap = 10, buf = map get_request ten_paths\<rparr>,
      Writer = [],
      Stdout = Stdout (main_server plain_terminal default_flags Map.empty),
      Files = Map.empty\<rparr>"

section \<open>Properties\<close>

subsection \<open>Paths\<close>

lemma split_sep_nonempty: "split_sep s \<noteq> []"
  by (induction s) (auto split: list.splits)

lemma split_sep_no_sep: "e \<in> set (split_sep s) \<Longrightarrow> CHR ''/'' \<notin> set e"
  by (induction s arbitrary: e) (auto split: list.splits if_splits)

lemma split_sep_append: "split_sep (a @ CHR ''/'' # b) = split_sep a @ split_sep b"
  by (induction a) (auto split: list.splits simp: split_sep_nonempty)

lemma split_sep_single: "CHR ''/'' \<notin> set e \<Longrightarrow> split_sep e = [e]"
  by (induction e) (auto split: list.splits)

lemma split_sep_Join:
  "cs \<noteq> [] \<Longrightarrow> \<forall>e\<in>set cs. CHR ''/'' \<notin> set e \<Longrightarrow> split_sep (strings_Join cs ''/'') = cs"
  by (induction cs "''/''" rule: strings_Join.induct)
     (auto simp: split_sep_single split_sep_append)

lemma foldl_clean_plain:
  "''..'' \<notin> set es \<Longrightarrow>
   foldl (clean_step b) stk es = rev (filter (\<lambda>e. e \<noteq> [] \<and> e \<noteq> ''.'') es) @ stk"
  by (induction es arbitrary: stk) (auto simp: clean_step_def)

lemma settled_Nil: "settled b []"
  by (simp add: settled_def)

lemma settled_tl: "settled b (x # xs) \<Longrightarrow> settled b xs"
  unfolding settled_def
proof (intro conjI allI)
  fix n assume a: "(\<forall>n. foldl (clean_step b) [] (rev (drop n (x # xs))) = drop n (x # xs)) \<and>
    (\<forall>e\<in>set (x # xs). e \<noteq> [] \<and> CHR ''/'' \<notin> set e)"
  then have "foldl (clean_step b) [] (rev (drop (Suc n) (x # xs))) = drop (Suc n) (x # xs)"
    by blast
  then show "foldl (clean_step b) [] (rev (drop n xs)) = drop n xs" by simp
next
  assume "(\<forall>n. foldl (clean_step b) [] (rev (drop n (x # xs))) = drop n (x # xs)) \<and>
    (\<forall>e\<in>set (x # xs). e \<noteq> [] \<and> CHR ''/'' \<notin> set e)"
  then show "\<forall>e\<in>set xs. e \<noteq> [] \<and> CHR ''/'' \<notin> set e" by simp
qed

lemma settled_push:
  assumes "settled b stk" and "clean_step b stk e = e # stk" and "e \<noteq> []" and "CHR ''/'' \<notin> set e"
  shows "settled b (e # stk)"
  unfolding settled_def
proof (intro conjI allI)
  fix n
  show "foldl (clean_step b) [] (rev (drop n (e # stk))) = drop n (e # stk)"
  proof (cases n)
    case 0
    from assms(1) have "foldl (clean_step b) [] (rev (drop 0 stk)) = drop 0 stk"
      unfolding settled_def by blast
    with assms(2) 0 show ?thesis by simp
  next
    case (Suc m)
    with assms(1) show ?thesis unfolding settled_def by simp
  qed
next
  from assms show "\<forall>x\<in>set (e # stk). x \<noteq> [] \<and> CHR ''/'' \<notin> set x"
    unfolding settled_def by simp
qed

lemma settled_step:
  assumes "settled b stk" and "CHR ''/'' \<notin> set e"
  shows "settled b (clean_step b stk e)"
proof -
  have "clean_step b stk e = stk
        \<or> (\<exists>x xs. stk = x # xs \<and> clean_step b stk e = xs)
        \<or> (clean_step b stk e = e # stk \<and> e \<noteq> [])"
    by (cases stk) (simp_all add: clean_step_def)
  then consider (skip) "clean_step b stk e = stk"
    | (pop) x xs where "stk = x # xs" "clean_step b stk e = xs"
    | (push) "clean_step b stk e = e # stk" "e \<noteq> []"
    by blast
  then show ?thesis
  proof cases
    case skip
    with assms show ?thesis by simp
  next
    case pop
    with assms settled_tl show ?thesis by metis
  next
    case push
    with assms settled_push show ?thesis by metis
  qed
qed

lemma settled_foldl:
  "settled b stk \<Longrightarrow> \<forall>e\<in>set es. CHR ''/'' \<notin> set e \<Longrightarrow> settled b (foldl (clean_step b) stk es)"
  by (induction es arbitrary: stk) (auto simp: settled_step)

lemma settled_path: "settled (is_rooted p) (rev (path_elems p))"
  unfolding path_elems_def rev_rev_ident
  by (rule settled_foldl) (auto simp: settled_Nil split_sep_no_sep)

lemma path_elems_reclean:
  "foldl (clean_step (is_rooted p)) [] (path_elems p) = rev (path_elems p)"
  using settled_path [of p] unfolding settled_def
  by (metis drop0 rev_rev_ident)

lemma path_elems_no_sep: "e \<in> set (path_elems p) \<Longrightarrow> e \<noteq> [] \<and> CHR ''/'' \<notin> set e"
  using settled_path [of p] unfolding settled_def by simp

lemma is_rooted_append: "x \<noteq> [] \<Longrightarrow> is_rooted (x @ y) = is_rooted x"
  by (cases x) (simp_all add: is_rooted_def)

lemma is_rooted_no_sep: "CHR ''/'' \<notin> set x \<Longrightarrow> \<not> is_rooted x"
  by (cases x) (auto simp: is_rooted_def)

lemma strings_Join_Cons:
  "strings_Join (x # xs) sep = (if xs = [] then x else x @ sep @ strings_Join xs sep)"
  by (cases xs) simp_all

lemma is_rooted_Join:
  "cs \<noteq> [] \<Longrightarrow> \<forall>e\<in>set cs. e \<noteq> [] \<and> CHR ''/'' \<notin> set e \<Longrightarrow> \<not> is_rooted (strings_Join cs ''/'')"
  by (cases cs) (simp_all add: strings_Join_Cons is_rooted_append is_rooted_no_sep)

lemma is_rooted_Clean: "is_rooted (filepath_Clean p) = is_rooted p"
  using is_rooted_Join [of "path_elems p"] path_elems_no_sep [of _ p]
  by (auto simp: filepath_Clean_def) (auto simp: is_rooted_def)

lemma path_elems_Clean: "path_elems (filepath_Clean p) = path_elems p"
proof (cases "path_elems p = []")
  case True
  then show ?thesis
    by (auto simp: filepath_Clean_def path_elems_def is_rooted_def clean_step_def)
next
  case False
  have sp: "split_sep (strings_Join (path_elems p) ''/'') = path_elems p"
    using False path_elems_no_sep by (intro split_sep_Join) auto
  have "path_elems (filepath_Clean p)
          = rev (foldl (clean_step (is_rooted p)) [] (split_sep (filepath_Clean p)))"
    by (simp add: path_elems_def is_rooted_Clean)
  also have "foldl (clean_step (is_rooted p)) [] (split_sep (filepath_Clean p))
          = foldl (clean_step (is_rooted p)) [] (path_elems p)"
    using False sp by (auto simp: filepath_Clean_def clean_step_def)
  finally show ?thesis by (simp add: path_elems_reclean)
qed

lemma Clean_Clean: "filepath_Clean (filepath_Clean p) = filepath_Clean p"
  by (simp add: filepath_Clean_def [of "filepath_Clean p"] path_elems_Clean is_rooted_Clean)
     (simp add: filepath_Clean_def)


lemma path_elems_slash:
  assumes "d \<noteq> []" and "''..'' \<notin> set (split_sep f)"
  shows "path_elems (d @ CHR ''/'' # f)
           = path_elems d @ filter (\<lambda>e. e \<noteq> [] \<and> e \<noteq> ''.'') (split_sep f)"
  using assms
  by (simp add: path_elems_def is_rooted_append split_sep_append foldl_clean_plain)

lemma Join_dir_file:
  "d \<noteq> [] \<Longrightarrow> filepath_Join [d, f] = filepath_Clean (d @ CHR ''/'' # f)"
  by simp

lemma Clean_Join_dir_file:
  "d \<noteq> [] \<or> f \<noteq> [] \<Longrightarrow> filepath_Clean (filepath_Join [d, f]) = filepath_Join [d, f]"
  by (auto simp: Clean_Clean)

lemma confined_Join:
  assumes "d \<noteq> []" and "''..'' \<notin> set (split_sep f)"
  shows "confined d (filepath_Join [d, f])"
proof -
  have "path_elems (filepath_Join [d, f])
          = path_elems d @ filter (\<lambda>e. e \<noteq> [] \<and> e \<noteq> ''.'') (split_sep f)"
    using assms by (simp add: path_elems_Clean path_elems_slash)
  moreover have "is_rooted (filepath_Join [d, f]) = is_rooted d"
    using assms(1) by (simp add: is_rooted_Clean is_rooted_append)
  ultimately show ?thesis
    using assms(2) by (simp add: confined_def)
qed

subsection \<open>The calls of the operating system and the write algorithm\<close>

lemma os_CreateTemp_fresh:
  assumes "os_CreateTemp os d pre files = Inr (tmp, files1)"
  shows "files (filepath_Clean tmp) = None \<and> files1 = files(filepath_Clean tmp \<mapsto> [])"
  using assms
  by (auto simp: os_CreateTemp_def Let_def find_Some_iff split: option.splits)

lemma io_Copy_Inl:
  "io_Copy os tmp src f = (Inl err, f2) \<Longrightarrow> \<exists>c. f2 = f(filepath_Clean tmp \<mapsto> c)"
  by (auto simp: io_Copy_def split: option.splits if_splits)

lemma io_Copy_Inr:
  "io_Copy os tmp src f = (Inr n, f2) \<Longrightarrow> f2 = f(filepath_Clean tmp \<mapsto> rd_data src)"
  by (auto simp: io_Copy_def split: option.splits if_splits)

lemma os_Rename_Some: "os_Rename os a b f = (Some err, f') \<Longrightarrow> f' = f"
  by (auto simp: os_Rename_def split: option.splits if_splits)

lemma os_Rename_None:
  "os_Rename os a b f = (None, f') \<Longrightarrow> f (filepath_Clean a) = Some c \<Longrightarrow>
   f' = (f(filepath_Clean a := None))(filepath_Clean b \<mapsto> c) \<and> b \<noteq> []"
  by (auto simp: os_Rename_def split: option.splits if_splits)

lemma fresh_removed: "f k = None \<Longrightarrow> (f(k \<mapsto> c))(k := None) = f"
  by (auto simp: fun_eq_iff)

lemma store_upload_create_fails:
  "os_CreateTemp os d ''lama-upload-'' files = Inl err \<Longrightarrow>
   store_upload d os w fn fb files = (http_Error w err StatusInternalServerError, files)"
  by (simp add: store_upload_def)

lemma store_upload_copy_fails:
  assumes "os_CreateTemp os d ''lama-upload-'' files = Inr (tmp, files1)"
      and "io_Copy os tmp fb files1 = (Inl err, files2)"
  shows "store_upload d os w fn fb files
           = (http_Error w (''failed to write file body: '' @ err) StatusInternalServerError, files)"
proof -
  from os_CreateTemp_fresh [OF assms(1)] io_Copy_Inl [OF assms(2)]
  have "os_Remove tmp files2 = files"
    by (auto simp: os_Remove_def fresh_removed)
  with assms show ?thesis by (simp add: store_upload_def)
qed

lemma store_upload_rename_fails:
  assumes "os_CreateTemp os d ''lama-upload-'' files = Inr (tmp, files1)"
      and "io_Copy os tmp fb files1 = (Inr n, files2)"
      and "os_Rename os tmp (filepath_Join [d, fn]) files2 = (Some err, files3)"
  shows "store_upload d os w fn fb files
           = (http_Error w (''failed to rename file: '' @ err) StatusInternalServerError, files)"
proof -
  from os_CreateTemp_fresh [OF assms(1)] io_Copy_Inr [OF assms(2)] os_Rename_Some [OF assms(3)]
  have "os_Remove tmp files3 = files"
    by (auto simp: os_Remove_def fresh_removed)
  with assms show ?thesis by (simp add: store_upload_def)
qed

lemma store_upload_renamed:
  assumes "os_CreateTemp os d ''lama-upload-'' files = Inr (tmp, files1)"
      and "io_Copy os tmp fb files1 = (Inr n, files2)"
      and "os_Rename os tmp (filepath_Join [d, fn]) files2 = (None, files3)"
  shows "store_upload d os w fn fb files
           = (w, (files(filepath_Join [d, fn] \<mapsto> rd_data fb))(filepath_Clean tmp := None))"
proof -
  from os_CreateTemp_fresh [OF assms(1)] io_Copy_Inr [OF assms(2)]
  have f2: "files2 (filepath_Clean tmp) = Some (rd_data fb)"
    and f2': "files2 = files(filepath_Clean tmp \<mapsto> rd_data fb)"
    and fr: "files (filepath_Clean tmp) = None"
    by auto
  from os_Rename_None [OF assms(3) f2]
  have f3: "files3 = (files2(filepath_Clean tmp := None))
                       (filepath_Clean (filepath_Join [d, fn]) \<mapsto> rd_data fb)"
    and ne: "filepath_Join [d, fn] \<noteq> []"
    by auto
  from ne have "d \<noteq> [] \<or> fn \<noteq> []" by auto
  then have cl: "filepath_Clean (filepath_Join [d, fn]) = filepath_Join [d, fn]"
    by (rule Clean_Join_dir_file)
  have "os_Remove tmp files3
          = (files(filepath_Join [d, fn] \<mapsto> rd_data fb))(filepath_Clean tmp := None)"
    using fr unfolding f3 f2' cl os_Remove_def by (auto simp: fun_eq_iff)
  with assms show ?thesis by (simp add: store_upload_def)
qed

lemma store_upload_changes:
  assumes "store_upload d os w fn fb files = (w', files')" and "files' p \<noteq> files p"
  shows "p = filepath_Join [d, fn]"
proof (cases "os_CreateTemp os d ''lama-upload-'' files")
  case (Inl err)
  from store_upload_create_fails [OF Inl] assms show ?thesis by simp
next
  case (Inr a)
  then obtain tmp files1 where ct: "os_CreateTemp os d ''lama-upload-'' files = Inr (tmp, files1)"
    by (cases a) simp
  obtain res files2 where cp: "io_Copy os tmp fb files1 = (res, files2)"
    by (cases "io_Copy os tmp fb files1")
  show ?thesis
  proof (cases res)
    case (Inl err)
    from store_upload_copy_fails [OF ct cp [unfolded Inl]] assms show ?thesis by simp
  next
    case (Inr n)
    obtain r files3 where rn: "os_Rename os tmp (filepath_Join [d, fn]) files2 = (r, files3)"
      by (cases "os_Rename os tmp (filepath_Join [d, fn]) files2")
    show ?thesis
    proof (cases r)
      case None
      from store_upload_renamed [OF ct cp [unfolded Inr] rn [unfolded None]] assms
        os_CreateTemp_fresh [OF ct]
      show ?thesis by (auto split: if_splits)
    next
      case (Some err)
      from store_upload_rename_fails [OF ct cp [unfolded Inr] rn [unfolded Some]] assms
      show ?thesis by simp
    qed
  qed
qed

subsection \<open>The upload sink\<close>

lemma handleUploads_Upload:
  "upload_switch r = Upload filename filebody \<Longrightarrow>
   handleUploads dir handler os w r files = store_upload dir os w filename filebody files"
  by (simp add: handleUploads_def)

lemmas eval_path = filepath_Clean_def path_elems_def is_rooted_def clean_step_def confined_def
lemmas eval_os = os_CreateTemp_def io_Copy_def os_Rename_def os_Remove_def joinPath_def
  uitoa.simps digit_def os_ok_def Let_def
lemmas eval_http = upload_switch_def handleUploads_def store_upload_def put_request_def
  Header_Get_def FormFile_def MethodPut_def MethodPost_def http_Error_def
  WriteHeader_def new_response_def status_sent_def StatusInternalServerError_def
  StatusBadRequest_def StatusOK_def NotFound_def

text \<open>
  Claim C1, as amended. The sink renames the temporary file to
  \<^verbatim>\<open>filepath.Join(dir, filename)\<close> and checks nothing. When the directory is not the
  empty string and no element of the file name of an upload (the request path of a PUT,
  the declared name of a form upload) is \<^verbatim>\<open>..\<close>, every path at which the file system
  differs after the request is that destination, and it is confined to the directory.
\<close>

theorem upload_confined:
  assumes "dir \<noteq> []"
      and "upload_switch r = Upload filename filebody"
      and "''..'' \<notin> set (split_sep filename)"
      and "snd (handleUploads dir handler os w r files) p \<noteq> files p"
  shows "p = filepath_Join [dir, filename] \<and> confined dir p"
proof -
  have "store_upload dir os w filename filebody files
          = (fst (handleUploads dir handler os w r files), snd (handleUploads dir handler os w r files))"
    by (simp add: handleUploads_Upload [OF assms(2)])
  from store_upload_changes [OF this assms(4)] confined_Join [OF assms(1,3)]
  show ?thesis by simp
qed

text \<open>The theorem at a PUT of \<^verbatim>\<open>/foo.txt\<close> into \<^verbatim>\<open>/srv/www\<close>.\<close>

theorem upload_confined_witness:
  "upload_switch (put_request ''/foo.txt'' \<lparr>rd_data = ''hello'', rd_err = None\<rparr>)
     = Upload ''/foo.txt'' \<lparr>rd_data = ''hello'', rd_err = None\<rparr>
   \<and> ''..'' \<notin> set (split_sep ''/foo.txt'')
   \<and> snd (handleUploads ''/srv/www'' NotFound os_ok new_response
            (put_request ''/foo.txt'' \<lparr>rd_data = ''hello'', rd_err = None\<rparr>) Map.empty)
       ''/srv/www/foo.txt'' \<noteq> Map.empty ''/srv/www/foo.txt''
   \<and> ''/srv/www/foo.txt'' = filepath_Join [''/srv/www'', ''/foo.txt'']
   \<and> confined ''/srv/www'' ''/srv/www/foo.txt''"
proof -
  have sw: "upload_switch (put_request ''/foo.txt'' \<lparr>rd_data = ''hello'', rd_err = None\<rparr>)
     = Upload ''/foo.txt'' \<lparr>rd_data = ''hello'', rd_err = None\<rparr>"
    by (simp add: upload_switch_def put_request_def MethodPut_def)
  have el: "''..'' \<notin> set (split_sep ''/foo.txt'')" by simp
  have ch: "snd (handleUploads ''/srv/www'' NotFound os_ok new_response
            (put_request ''/foo.txt'' \<lparr>rd_data = ''hello'', rd_err = None\<rparr>) Map.empty)
       ''/srv/www/foo.txt'' \<noteq> Map.empty ''/srv/www/foo.txt''"
    by (simp add: eval_http eval_os eval_path)
  have ne: "''/srv/www'' \<noteq> []" by simp
  from upload_confined [OF ne sw el ch] sw el ch show ?thesis by blast
qed

text \<open>
  Claim C1 as stated fails: a PUT of \<^verbatim>\<open>/../../etc/passwd\<close> to a sink for \<^verbatim>\<open>/srv/www\<close>
  leaves its body at \<^verbatim>\<open>/etc/passwd\<close>, which is not confined to \<^verbatim>\<open>/srv/www\<close>.
\<close>

theorem upload_escapes:
  "snd (handleUploads ''/srv/www'' NotFound os_ok new_response
          (put_request ''/../../etc/passwd'' \<lparr>rd_data = ''x'', rd_err = None\<rparr>) Map.empty)
     ''/etc/passwd'' = Some ''x''
   \<and> \<not> confined ''/srv/www'' ''/etc/passwd''"
  by (simp add: eval_http eval_os eval_path)

text \<open>
  Claim C3. An upload for which the temporary file was created and then the copy of the
  body fails, or the copy succeeds and the rename fails, is answered with status 500; the
  temporary file is gone afterwards and the file system is what it was before, so the
  destination is untouched: absent if it was absent, and with its old content otherwise.
\<close>

theorem upload_failure_cleans_up:
  assumes "upload_switch r = Upload filename filebody"
      and "os_CreateTemp os dir ''lama-upload-'' files = Inr (tmpfile, files1)"
      and "io_Copy os tmpfile filebody files1 = (res, files2)"
      and "isl res \<or> fst (os_Rename os tmpfile (filepath_Join [dir, filename]) files2) \<noteq> None"
      and "status w = None"
  shows "status_sent (fst (handleUploads dir handler os w r files)) = StatusInternalServerError
         \<and> snd (handleUploads dir handler os w r files) (filepath_Clean tmpfile) = None
         \<and> snd (handleUploads dir handler os w r files) = files"
proof -
  have fresh: "files (filepath_Clean tmpfile) = None"
    using os_CreateTemp_fresh [OF assms(2)] by simp
  have st: "status_sent (http_Error w msg StatusInternalServerError) = StatusInternalServerError"
    for msg
    using assms(5) by (simp add: http_Error_def WriteHeader_def status_sent_def Let_def)
  show ?thesis
  proof (cases res)
    case (Inl err)
    from store_upload_copy_fails [OF assms(2) assms(3) [unfolded Inl]] fresh st
    show ?thesis by (simp add: handleUploads_Upload [OF assms(1)])
  next
    case (Inr n)
    with assms(4) obtain err files3
      where "os_Rename os tmpfile (filepath_Join [dir, filename]) files2 = (Some err, files3)"
      by (cases "os_Rename os tmpfile (filepath_Join [dir, filename]) files2") auto
    from store_upload_rename_fails [OF assms(2) assms(3) [unfolded Inr] this] fresh st
    show ?thesis by (simp add: handleUploads_Upload [OF assms(1)])
  qed
qed

text \<open>
  The theorem at a PUT whose body breaks off, over an existing file, and at a PUT whose
  rename is refused.
\<close>

theorem upload_failure_cleans_up_witness:
  "(let out = handleUploads ''/srv/www'' NotFound os_ok new_response
                (put_request ''/foo.txt'' broken_body) [''/srv/www/foo.txt'' \<mapsto> ''old'']
    in status_sent (fst out) = 500
       \<and> snd out ''/srv/www/lama-upload-42'' = None
       \<and> snd out = [''/srv/www/foo.txt'' \<mapsto> ''old''])
   \<and> (let out = handleUploads ''/srv/www'' NotFound os_no_rename new_response
                  (put_request ''/foo.txt'' \<lparr>rd_data = ''hello'', rd_err = None\<rparr>) Map.empty
      in status_sent (fst out) = 500
         \<and> snd out ''/srv/www/lama-upload-42'' = None
         \<and> snd out = Map.empty)"
proof -
  let ?old = "[''/srv/www/foo.txt'' \<mapsto> ''old'']"
  let ?tmp = "''/srv/www/lama-upload-42''"
  let ?hello = "\<lparr>rd_data = ''hello'', rd_err = None\<rparr>"
  have sw1: "upload_switch (put_request ''/foo.txt'' broken_body) = Upload ''/foo.txt'' broken_body"
    by (simp add: upload_switch_def put_request_def MethodPut_def)
  have ct1: "os_CreateTemp os_ok ''/srv/www'' ''lama-upload-'' ?old = Inr (?tmp, ?old(?tmp \<mapsto> []))"
    by (simp add: eval_os eval_path)
  have cp1: "io_Copy os_ok ?tmp broken_body (?old(?tmp \<mapsto> []))
               = (Inl ''unexpected EOF'', ?old(?tmp \<mapsto> ''hel''))"
    by (simp add: eval_os eval_path broken_body_def)
  have f1: "isl (Inl ''unexpected EOF'' :: string + nat)
            \<or> fst (os_Rename os_ok ?tmp (filepath_Join [''/srv/www'', ''/foo.txt''])
                    (?old(?tmp \<mapsto> ''hel''))) \<noteq> None"
    by simp
  have s0: "status new_response = None" by (simp add: new_response_def)
  have cl: "filepath_Clean ?tmp = ?tmp" by (simp add: eval_path)
  have sw2: "upload_switch (put_request ''/foo.txt'' ?hello) = Upload ''/foo.txt'' ?hello"
    by (simp add: upload_switch_def put_request_def MethodPut_def)
  have ct2: "os_CreateTemp os_no_rename ''/srv/www'' ''lama-upload-'' Map.empty
               = Inr (?tmp, [?tmp \<mapsto> []])"
    by (simp add: eval_os eval_path os_no_rename_def)
  have cp2: "io_Copy os_no_rename ?tmp ?hello [?tmp \<mapsto> []] = (Inr 5, [?tmp \<mapsto> ''hello''])"
    by (simp add: eval_os eval_path os_no_rename_def)
  have f2: "isl (Inr 5 :: string + nat)
            \<or> fst (os_Rename os_no_rename ?tmp (filepath_Join [''/srv/www'', ''/foo.txt''])
                    [?tmp \<mapsto> ''hello'']) \<noteq> None"
    by (simp add: os_Rename_def os_no_rename_def os_ok_def)
  from upload_failure_cleans_up [OF sw1 ct1 cp1 f1 s0, of NotFound]
       upload_failure_cleans_up [OF sw2 ct2 cp2 f2 s0, of NotFound]
  show ?thesis
    by (simp add: cl StatusInternalServerError_def Let_def)
qed

text \<open>
  Claim C4. A PUT takes the request path as the file name and the whole body as the
  content: when the temporary file is created, neither the copy nor the rename fails and
  the destination is not the temporary file itself, the response is left as it was and the
  file system differs in exactly one place, the destination
  \<^verbatim>\<open>filepath.Join(dir, path)\<close>, which holds the body.
\<close>

theorem put_stores_body:
  assumes "Method r = MethodPut"
      and "os_CreateTemp os dir ''lama-upload-'' files = Inr (tmpfile, files1)"
      and "write_fails os = None" and "rd_err (Body r) = None" and "rename_fails os = None"
      and "filepath_Join [dir, url_Path (URL r)] \<noteq> []"
      and "filepath_Clean tmpfile \<noteq> filepath_Join [dir, url_Path (URL r)]"
  shows "handleUploads dir handler os w r files
           = (w, files(filepath_Join [dir, url_Path (URL r)] \<mapsto> rd_data (Body r)))"
proof -
  let ?dst = "filepath_Join [dir, url_Path (URL r)]"
  have sw: "upload_switch r = Upload (url_Path (URL r)) (Body r)"
    using assms(1) by (simp add: upload_switch_def)
  have fresh: "files (filepath_Clean tmpfile) = None"
    and f1: "files1 = files(filepath_Clean tmpfile \<mapsto> [])"
    using os_CreateTemp_fresh [OF assms(2)] by simp_all
  have cp: "io_Copy os tmpfile (Body r) files1
              = (Inr (length (rd_data (Body r))), files1(filepath_Clean tmpfile \<mapsto> rd_data (Body r)))"
    using assms(3,4) by (simp add: io_Copy_def)
  have rn: "os_Rename os tmpfile ?dst (files1(filepath_Clean tmpfile \<mapsto> rd_data (Body r)))
              = (None, ((files1(filepath_Clean tmpfile \<mapsto> rd_data (Body r)))
                          (filepath_Clean tmpfile := None))
                         (filepath_Clean ?dst \<mapsto> rd_data (Body r)))"
    using assms(5,6) by (simp add: os_Rename_def)
  have "(files(?dst \<mapsto> rd_data (Body r)))(filepath_Clean tmpfile := None)
          = files(?dst \<mapsto> rd_data (Body r))"
    using fresh assms(7) by (auto simp: fun_eq_iff)
  with store_upload_renamed [OF assms(2) cp rn, of w]
  show ?thesis by (simp add: handleUploads_Upload [OF sw])
qed

text \<open>
  The theorem at the PUT of \<^verbatim>\<open>/foo.txt\<close> with body \<^verbatim>\<open>hello\<close> into \<^verbatim>\<open>/srv/www\<close>: the one
  new file is \<^verbatim>\<open>/srv/www/foo.txt\<close> with content \<^verbatim>\<open>hello\<close>.
\<close>

theorem put_stores_body_witness:
  "handleUploads ''/srv/www'' NotFound os_ok new_response
     (put_request ''/foo.txt'' \<lparr>rd_data = ''hello'', rd_err = None\<rparr>) [''/srv/www/index.html'' \<mapsto> ''hi'']
   = (new_response, [''/srv/www/index.html'' \<mapsto> ''hi'', ''/srv/www/foo.txt'' \<mapsto> ''hello''])"
proof -
  let ?old = "[''/srv/www/index.html'' \<mapsto> ''hi'']"
  let ?tmp = "''/srv/www/lama-upload-42''"
  let ?r = "put_request ''/foo.txt'' \<lparr>rd_data = ''hello'', rd_err = None\<rparr>"
  have m: "Method ?r = MethodPut" by (simp add: put_request_def MethodPut_def)
  have ct: "os_CreateTemp os_ok ''/srv/www'' ''lama-upload-'' ?old = Inr (?tmp, ?old(?tmp \<mapsto> []))"
    by (simp add: eval_os eval_path)
  have wf: "write_fails os_ok = None" and rf: "rename_fails os_ok = None"
    by (simp_all add: os_ok_def)
  have re: "rd_err (Body ?r) = None" by (simp add: put_request_def)
  have dst: "filepath_Join [''/srv/www'', url_Path (URL ?r)] = ''/srv/www/foo.txt''"
    by (simp add: put_request_def eval_path)
  have ne: "filepath_Join [''/srv/www'', url_Path (URL ?r)] \<noteq> []"
    unfolding dst by simp
  have tm: "filepath_Clean ?tmp \<noteq> filepath_Join [''/srv/www'', url_Path (URL ?r)]"
    unfolding dst by (simp add: eval_path)
  from put_stores_body [OF m ct wf re rf ne tm, of NotFound new_response]
  show ?thesis unfolding dst by (simp add: put_request_def)
qed

text \<open>
  Claim C2 fails on the code. A POST is a form upload only when its \<^verbatim>\<open>Content-Type\<close> is
  the very string \<^verbatim>\<open>multipart/form-data\<close>. The header of a multipart body also names
  the boundary, so such a request, here with a field \<^verbatim>\<open>file\<close> named \<^verbatim>\<open>bar.txt\<close>,
  is handed to the inner delegate and nothing is stored.
\<close>

theorem post_with_boundary_forwarded:
  "handleUploads dir handler os w
     (post_form ''multipart/form-data; boundary=XYZ'' ''bar.txt'' ''world'') files
   = handler os w (post_form ''multipart/form-data; boundary=XYZ'' ''bar.txt'' ''world'') files"
  by (simp add: handleUploads_def upload_switch_def post_form_def Header_Get_def MethodPut_def
      MethodPost_def)

subsection \<open>The dispatcher, the queue and the renderer\<close>

lemma ServeHTTP_Some:
  assumes "ServeHTTP h os resp req srv = Some (resp', srv')"
  shows "length (buf (Logger srv)) < cap (Logger srv)"
    and "Logger srv' = (Logger srv)\<lparr>buf := buf (Logger srv) @ [req]\<rparr>"
    and "Writer srv' = Writer srv" and "Stdout srv' = Stdout srv"
    and "Delegate h = None \<Longrightarrow> resp' = resp \<and> Files srv' = Files srv"
    and "Delegate h = Some d \<Longrightarrow> (resp', Files srv') = d os resp req (Files srv)"
  using assms
  by (auto simp: ServeHTTP_def chan_send_def split: option.splits if_splits prod.splits)

lemma ServeHTTP_None:
  "ServeHTTP h os resp req srv = None \<longleftrightarrow> \<not> length (buf (Logger srv)) < cap (Logger srv)"
  by (auto simp: ServeHTTP_def chan_send_def split: option.splits if_splits prod.splits)

lemma logRequest_Stdout:
  "Writer srv = [] \<Longrightarrow> Stdout (logRequest h t now req srv) = Stdout srv @ entry h t now req"
  by (simp add: logRequest_def entry_def Let_def)

lemma logRequest_other:
  "Writer srv = [] \<Longrightarrow> Writer (logRequest h t now req srv) = []"
  "Logger (logRequest h t now req srv) = Logger srv"
  "Files (logRequest h t now req srv) = Files srv"
  by (simp_all add: logRequest_def Let_def)

lemma logRequests_Some:
  assumes "logRequests h t now srv = Some srv'"
  obtains req q where "buf (Logger srv) = req # q"
    and "Logger srv' = (Logger srv)\<lparr>buf := q\<rparr>"
    and "Files srv' = Files srv"
    and "Writer srv = [] \<Longrightarrow> Writer srv' = [] \<and> Stdout srv' = Stdout srv @ entry h t now req"
  using assms
  by (auto simp: logRequests_def chan_recv_def logRequest_Stdout logRequest_other
      split: list.splits)

lemma logRequests_None: "logRequests h t now srv = None \<longleftrightarrow> buf (Logger srv) = []"
  by (auto simp: logRequests_def chan_recv_def split: list.splits)


lemma run_fifo:
  assumes "run h t evs srv = Some srv'" and "Writer srv = []"
  shows "buf (Logger srv') = drop (length (renders evs)) (buf (Logger srv) @ served evs)
         \<and> Stdout srv' = Stdout srv
              @ concat (map2 (entry h t) (renders evs) (buf (Logger srv) @ served evs))
         \<and> length (renders evs) \<le> length (buf (Logger srv) @ served evs)
         \<and> Writer srv' = [] \<and> cap (Logger srv') = cap (Logger srv)"
  using assms
proof (induction evs arbitrary: srv)
  case Nil
  then show ?case by simp
next
  case (Cons e es)
  show ?case
  proof (cases e)
    case (Serve os req)
    with Cons.prems obtain resp1 srv1
      where s: "ServeHTTP h os new_response req srv = Some (resp1, srv1)"
        and r: "run h t es srv1 = Some srv'"
      by (auto split: option.splits)
    from ServeHTTP_Some(2,3) [OF s] Cons.prems(2)
    have "buf (Logger srv1) = buf (Logger srv) @ [req]" "Writer srv1 = []"
      "cap (Logger srv1) = cap (Logger srv)"
      by simp_all
    with Cons.IH [OF r] ServeHTTP_Some(4) [OF s] Serve show ?thesis by simp
  next
    case (Render now)
    with Cons.prems obtain srv1
      where s: "logRequests h t now srv = Some srv1" and r: "run h t es srv1 = Some srv'"
      by (auto split: option.splits)
    from s obtain req q where "buf (Logger srv) = req # q" "buf (Logger srv1) = q"
      "cap (Logger srv1) = cap (Logger srv)"
      "Writer srv1 = []" "Stdout srv1 = Stdout srv @ entry h t now req"
      using Cons.prems(2) by (auto elim!: logRequests_Some)
    with Cons.IH [OF r] Render show ?thesis by simp
  qed
qed

lemma run_bounded:
  assumes "run h t evs srv = Some srv'" and "length (buf (Logger srv)) \<le> cap (Logger srv)"
  shows "length (buf (Logger srv')) \<le> cap (Logger srv') \<and> cap (Logger srv') = cap (Logger srv)"
  using assms
proof (induction evs arbitrary: srv)
  case Nil
  then show ?case by simp
next
  case (Cons e es)
  show ?case
  proof (cases e)
    case (Serve os req)
    with Cons.prems obtain resp1 srv1
      where s: "ServeHTTP h os new_response req srv = Some (resp1, srv1)"
        and r: "run h t es srv1 = Some srv'"
      by (auto split: option.splits)
    from ServeHTTP_Some(1,2) [OF s]
    have "length (buf (Logger srv1)) \<le> cap (Logger srv1)" "cap (Logger srv1) = cap (Logger srv)"
      by simp_all
    with Cons.IH [OF r] show ?thesis by simp
  next
    case (Render now)
    with Cons.prems obtain srv1
      where s: "logRequests h t now srv = Some srv1" and r: "run h t es srv1 = Some srv'"
      by (auto split: option.splits)
    from s obtain req q where "buf (Logger srv) = req # q" "buf (Logger srv1) = q"
      "cap (Logger srv1) = cap (Logger srv)"
      by (auto elim!: logRequests_Some)
    with Cons.IH [OF r] Cons.prems(2) show ?thesis by simp
  qed
qed






lemma main_server_init:
  "buf (Logger (main_server t fl files)) = []" "cap (Logger (main_server t fl files)) = 10"
  "Writer (main_server t fl files) = []" "Files (main_server t fl files) = files"
  by (simp_all add: main_server_def make_chan_def)

lemmas eval_run = ServeHTTP_def chan_send_def chan_recv_def logRequests_def logRequest_def
  main_server_def make_chan_def quiet_handler_def Let_def




lemma HasPrefix_append: "strings_HasPrefix s p \<Longrightarrow> \<exists>rest. s = p @ rest"
  unfolding strings_HasPrefix_def by (metis append_take_drop_id)

lemma absRequestURI_absolute: "absRequestURI req \<Longrightarrow> spec_absolute_URI (RequestURI req)"
proof -
  assume "absRequestURI req"
  then obtain rest where "RequestURI req = ''http://'' @ rest \<or> RequestURI req = ''https://'' @ rest"
    unfolding absRequestURI_def using HasPrefix_append by blast
  then show ?thesis
    by (auto simp: spec_absolute_URI_def is_alpha_def is_scheme_char_def)
qed



text \<open>
  Claim C6. In every run from the start the queue has capacity 10 and holds at most 10
  requests, and every request served has been rendered or is still in the queue. When the
  queue holds 10 requests the next handler blocks at its send (nothing happens); once the
  renderer has taken one request the handler gets through, and its request stands last in
  the queue behind the nine that were waiting. With room in the queue a handler does not
  block.
\<close>

theorem queue_blocks_when_full:
  assumes "run h t evs (main_server t fl files) = Some srv"
  shows "cap (Logger srv) = 10 \<and> length (buf (Logger srv)) \<le> 10
         \<and> served evs = take (length (renders evs)) (served evs) @ buf (Logger srv)
         \<and> (length (buf (Logger srv)) = 10 \<longrightarrow>
               ServeHTTP h os resp req srv = None
               \<and> (\<exists>srv1. logRequests h t now srv = Some srv1
                     \<and> (\<exists>out. ServeHTTP h os resp req srv1 = Some out
                           \<and> buf (Logger (snd out)) = tl (buf (Logger srv)) @ [req])))
         \<and> (length (buf (Logger srv)) < 10 \<longrightarrow>
               (\<exists>out. ServeHTTP h os resp req srv = Some out
                  \<and> buf (Logger (snd out)) = buf (Logger srv) @ [req]))"
proof -
  let ?s0 = "main_server t fl files"
  have i: "Writer ?s0 = []" "buf (Logger ?s0) = []" "cap (Logger ?s0) = 10"
    by (simp_all add: main_server_init)
  from run_bounded [OF assms] i
  have c: "cap (Logger srv) = 10" and b: "length (buf (Logger srv)) \<le> 10"
    by simp_all
  from run_fifo [OF assms i(1)] i(2)
  have p: "served evs = take (length (renders evs)) (served evs) @ buf (Logger srv)"
    by simp
  have full: "ServeHTTP h os resp req srv = None
               \<and> (\<exists>srv1. logRequests h t now srv = Some srv1
                     \<and> (\<exists>out. ServeHTTP h os resp req srv1 = Some out
                           \<and> buf (Logger (snd out)) = tl (buf (Logger srv)) @ [req]))"
    if "length (buf (Logger srv)) = 10"
  proof -
    from that c have "ServeHTTP h os resp req srv = None"
      by (simp add: ServeHTTP_None)
    moreover from that obtain x xs where "buf (Logger srv) = x # xs" "length xs = 9"
      by (cases "buf (Logger srv)") auto
    with c have "\<exists>srv1. logRequests h t now srv = Some srv1
                     \<and> (\<exists>out. ServeHTTP h os resp req srv1 = Some out
                           \<and> buf (Logger (snd out)) = tl (buf (Logger srv)) @ [req])"
      by (auto simp: logRequests_def chan_recv_def logRequest_other ServeHTTP_def chan_send_def
          split: option.splits prod.splits)
    ultimately show ?thesis by blast
  qed
  have room: "\<exists>out. ServeHTTP h os resp req srv = Some out
                  \<and> buf (Logger (snd out)) = buf (Logger srv) @ [req]"
    if "length (buf (Logger srv)) < 10"
    using that c
    by (auto simp: ServeHTTP_def chan_send_def split: option.splits prod.splits)
  from c b p full room show ?thesis by blast
qed

text \<open>The theorem after ten requests that have not been rendered.\<close>

theorem queue_blocks_when_full_witness:
  "run quiet_handler plain_terminal (map (\<lambda>p. Serve os_ok (get_request p)) ten_paths)
     (main_server plain_terminal default_flags Map.empty) = Some full_server
   \<and> length (buf (Logger full_server)) = 10
   \<and> ServeHTTP quiet_handler os_ok new_response (get_request ''/10'') full_server = None
   \<and> (\<exists>srv1. logRequests quiet_handler plain_terminal ''2019-06-01T12:00:00Z'' full_server = Some srv1
         \<and> (\<exists>out. ServeHTTP quiet_handler os_ok new_response (get_request ''/10'') srv1 = Some out
               \<and> buf (Logger (snd out)) = tl (buf (Logger full_server)) @ [get_request ''/10'']))"
proof -
  have r: "run quiet_handler plain_terminal (map (\<lambda>p. Serve os_ok (get_request p)) ten_paths)
             (main_server plain_terminal default_flags Map.empty) = Some full_server"
    by (simp add: eval_run ten_paths_def full_server_def new_response_def)
  have n: "length (buf (Logger full_server)) = 10"
    by (simp add: full_server_def ten_paths_def)
  from queue_blocks_when_full [OF r, of os_ok new_response "get_request ''/10''"
      "''2019-06-01T12:00:00Z''"] n r
  show ?thesis by blast
qed

text \<open>
  Claim C7. A handler that gets past its send has put its request last in the queue and
  then given the same request, with its response writer, to the delegate: the response and
  the file system are the delegate's. Without a delegate the response is left as it was,
  and a response nothing was written to is sent with status 200 and no body. Nothing of the
  server but the queue (and what the delegate did to the files) changes. A handler that
  cannot send has not called the delegate.
\<close>

theorem dispatcher_forwards:
  "(length (buf (Logger srv)) < cap (Logger srv) \<longrightarrow>
      (\<exists>resp' srv'. ServeHTTP h os resp req srv = Some (resp', srv')
         \<and> buf (Logger srv') = buf (Logger srv) @ [req]
         \<and> srv' = srv\<lparr>Logger := Logger srv', Files := Files srv'\<rparr>
         \<and> (case Delegate h of
               None \<Rightarrow> resp' = resp \<and> Files srv' = Files srv
             | Some d \<Rightarrow> (resp', Files srv') = d os resp req (Files srv))))
   \<and> (\<not> length (buf (Logger srv)) < cap (Logger srv) \<longrightarrow> ServeHTTP h os resp req srv = None)
   \<and> status_sent new_response = StatusOK \<and> body new_response = []"
  by (auto simp: ServeHTTP_def chan_send_def new_response_def status_sent_def
      split: option.splits prod.splits)

text \<open>
  The theorem at a PUT served by the upload sink, at a GET served without a delegate, and
  at a full queue.
\<close>

theorem dispatcher_forwards_witness:
  "(\<exists>resp' srv'. ServeHTTP upload_handler os_ok new_response
                   (put_request ''/foo.txt'' \<lparr>rd_data = ''hello'', rd_err = None\<rparr>)
                   (main_server plain_terminal default_flags Map.empty) = Some (resp', srv')
       \<and> buf (Logger srv') = [put_request ''/foo.txt'' \<lparr>rd_data = ''hello'', rd_err = None\<rparr>]
       \<and> (resp', Files srv') = handleUploads ''/srv/www'' NotFound os_ok new_response
            (put_request ''/foo.txt'' \<lparr>rd_data = ''hello'', rd_err = None\<rparr>) Map.empty)
   \<and> (\<exists>resp' srv'. ServeHTTP quiet_handler os_ok new_response (get_request ''/'')
                      (main_server plain_terminal default_flags Map.empty) = Some (resp', srv')
         \<and> buf (Logger srv') = [get_request ''/''] \<and> resp' = new_response
         \<and> Files srv' = Map.empty)
   \<and> ServeHTTP quiet_handler os_ok new_response (get_request ''/10'') full_server = None"
proof -
  let ?s0 = "main_server plain_terminal default_flags Map.empty"
  let ?put = "put_request ''/foo.txt'' \<lparr>rd_data = ''hello'', rd_err = None\<rparr>"
  have room: "length (buf (Logger ?s0)) < cap (Logger ?s0)"
    by (simp add: main_server_init)
  have nroom: "\<not> length (buf (Logger full_server)) < cap (Logger full_server)"
    by (simp add: full_server_def ten_paths_def)
  have d1: "Delegate upload_handler = Some (handleUploads ''/srv/www'' NotFound)"
    by (simp add: upload_handler_def)
  have d2: "Delegate quiet_handler = None"
    by (simp add: quiet_handler_def)
  from dispatcher_forwards [of ?s0 upload_handler os_ok new_response ?put] room
  have 1: "\<exists>resp' srv'. ServeHTTP upload_handler os_ok new_response ?put ?s0 = Some (resp', srv')
       \<and> buf (Logger srv') = [?put]
       \<and> (resp', Files srv') = handleUploads ''/srv/www'' NotFound os_ok new_response ?put Map.empty"
    by (simp add: d1 main_server_init) blast
  from dispatcher_forwards [of ?s0 quiet_handler os_ok new_response "get_request ''/''"] room
  have 2: "\<exists>resp' srv'. ServeHTTP quiet_handler os_ok new_response (get_request ''/'') ?s0
                          = Some (resp', srv')
         \<and> buf (Logger srv') = [get_request ''/''] \<and> resp' = new_response
         \<and> Files srv' = Map.empty"
    by (simp add: d2 main_server_init) blast?
  from dispatcher_forwards [of full_server quiet_handler os_ok new_response "get_request ''/10''"]
    nroom
  have 3: "ServeHTTP quiet_handler os_ok new_response (get_request ''/10'') full_server = None"
    by blast
  from 1 2 3 show ?thesis by blast
qed

text \<open>
  Claim C8, as amended. The \<^verbatim>\<open>Host:\<close> line is the padding, the coloured \<^verbatim>\<open>Host:\<close>, a
  tab, the host and the line end. The host is the host field of the request, or the host
  of the URL when that field is empty. There is no such line when the request URI starts
  with \<^verbatim>\<open>http://\<close> or \<^verbatim>\<open>https://\<close> in lower case, which are absolute URIs, and none
  when both hosts are empty; every other request with a host has the line. The line goes
  to the table that is printed after the summary line when requests are dumped; otherwise
  only the summary line is printed.
\<close>

theorem host_line_rule:
  "(absRequestURI req \<longrightarrow> spec_absolute_URI (RequestURI req) \<and> host_lines t req = [])
   \<and> (\<not> absRequestURI req \<and> Host req \<noteq> [] \<longrightarrow>
        host_lines t req = [headerPadding @ fgHeader t ''Host:'' @ TAB @ Host req @ CRLF])
   \<and> (\<not> absRequestURI req \<and> Host req = [] \<and> url_Host (URL req) \<noteq> [] \<longrightarrow>
        host_lines t req = [headerPadding @ fgHeader t ''Host:'' @ TAB @ url_Host (URL req) @ CRLF])
   \<and> (Host req = [] \<and> url_Host (URL req) = [] \<longrightarrow> host_lines t req = [])
   \<and> (DumpRequest h \<and> Writer srv = [] \<longrightarrow>
        Stdout (logRequest h t now req srv)
          = Stdout srv @ [summary_line t now req,
                          tabwriter t (host_lines t req @ header_lines t req), [CHR 0x0A]])
   \<and> (\<not> DumpRequest h \<longrightarrow>
        Stdout (logRequest h t now req srv) = Stdout srv @ [summary_line t now req])"
  using absRequestURI_absolute [of req]
  by (simp add: host_lines_def logRequest_def Let_def)

text \<open>
  The theorem at a request with an absolute URI, with a host field, with the host in the
  URL only, and with no host.
\<close>

theorem host_line_rule_witness:
  "absRequestURI proxy_request \<and> host_lines plain_terminal proxy_request = []
   \<and> host_lines plain_terminal (get_request ''/x'')
       = [headerPadding @ ''Host:'' @ TAB @ ''localhost:8080'' @ CRLF]
   \<and> host_lines plain_terminal (hostless_request ''example.org'')
       = [headerPadding @ ''Host:'' @ TAB @ ''example.org'' @ CRLF]
   \<and> host_lines plain_terminal (hostless_request []) = []"
proof -
  have a: "absRequestURI proxy_request"
    by (simp add: absRequestURI_def proxy_request_def get_request_def strings_HasPrefix_def)
  have na: "\<not> absRequestURI (get_request ''/x'')" "\<not> absRequestURI (hostless_request x)" for x
    by (simp_all add: absRequestURI_def hostless_request_def get_request_def strings_HasPrefix_def)
  have h: "Host (get_request ''/x'') = ''localhost:8080''" "Host (hostless_request x) = []"
    "url_Host (URL (hostless_request x)) = x" for x
    by (simp_all add: hostless_request_def get_request_def)
  have p: "fgHeader plain_terminal s = s" for s
    by (simp add: plain_terminal_def)
  from host_line_rule [of proxy_request plain_terminal] a
  have 1: "host_lines plain_terminal proxy_request = []" by blast
  from host_line_rule [of "get_request ''/x''" plain_terminal] na(1)
  have 2: "host_lines plain_terminal (get_request ''/x'')
       = [headerPadding @ ''Host:'' @ TAB @ ''localhost:8080'' @ CRLF]"
    by (simp add: h p)
  from host_line_rule [of "hostless_request ''example.org''" plain_terminal] na(2)
  have 3: "host_lines plain_terminal (hostless_request ''example.org'')
       = [headerPadding @ ''Host:'' @ TAB @ ''example.org'' @ CRLF]"
    by (simp add: h p)
  from host_line_rule [of "hostless_request []" plain_terminal]
  have 4: "host_lines plain_terminal (hostless_request []) = []"
    by (simp add: h)
  from a 1 2 3 4 show ?thesis by blast
qed

text \<open>
  Claim C8 as stated fails: the request URI \<^verbatim>\<open>HTTP://example.com/x\<close> is an absolute URI,
  and the \<^verbatim>\<open>Host:\<close> line of the request is printed.
\<close>

theorem host_line_for_absolute_URI:
  "spec_absolute_URI (RequestURI shouting_request)
   \<and> host_lines plain_terminal shouting_request
       = [headerPadding @ ''Host:'' @ TAB @ ''example.com'' @ CRLF]"
  by (simp add: spec_absolute_URI_def is_alpha_def is_scheme_char_def shouting_request_def
      get_request_def host_lines_def absRequestURI_def strings_HasPrefix_def plain_terminal_def)

text \<open>
  Claim C9, as amended. The summary line is the coloured method column, a space, the time,
  \<^verbatim>\<open> - \<close>, the protocol, a space, the coloured URL and the line end. The method column is
  the method followed by spaces up to 7 characters: the method stands at the left, and a
  method longer than 7 characters is printed whole.
\<close>

theorem summary_line_format:
  "summary_line t now req
     = fgMethod t (Method req @ replicate (7 - length (Method req)) CHR '' '') @ '' '' @ now
         @ '' - '' @ Proto req @ '' '' @ fgURL t (url_String (URL req)) @ CRLF
   \<and> length (Sprintf_minus 7 (Method req)) = max 7 (length (Method req))
   \<and> take (length (Method req)) (Sprintf_minus 7 (Method req)) = Method req"
  by (simp add: summary_line_def Sprintf_minus_def)

text \<open>
  Claim C9 as stated fails: the method column of a \<^verbatim>\<open>GET\<close> is \<^verbatim>\<open>GET\<close> and four spaces,
  not the left-padded four spaces and \<^verbatim>\<open>GET\<close>.
\<close>

theorem summary_not_left_padded:
  "take 7 (summary_line plain_terminal ''2019-06-01T12:00:00Z'' (get_request ''/'')) = ''GET    ''
   \<and> spec_left_pad 7 (Method (get_request ''/'')) = ''    GET''
   \<and> take 7 (summary_line plain_terminal ''2019-06-01T12:00:00Z'' (get_request ''/''))
       \<noteq> spec_left_pad 7 (Method (get_request ''/''))"
  by (simp add: summary_line_def Sprintf_minus_def spec_left_pad_def plain_terminal_def get_request_def
      eval_nat_numeral)


end
